theory Spec2Isabelle
  imports Main "HOL-Library.Sublist"
begin

section \<open>The notes page (src/pages/Note.js) as a state machine\<close>

text \<open>
  The component \<open>Note\<close> keeps its data in React state variables and changes them in
  event handlers. Each handler is embedded as a function from the state in which it is
  called (the values its closure reads) to a result: the state after the handler's
  \<open>set...\<close> calls, the effects it issued on the outside world in order (requests to
  the document store, timers, console output), and the exception it ended with, if any.
  What the handler reads from the environment is an argument: the reading of
  \<open>Date.now()\<close> and, for the two asynchronous handlers, how the awaited write
  settles. A handler is one step: no snapshot and no other event comes between its
  start and the end of its awaited write.

  A string is the list of its UTF-16 code units, each given by its number. Numbers are
  the integers (\<open>Date.now()\<close> is a count of milliseconds).
\<close>

subsection \<open>Strings: \<open>trim\<close>, \<open>includes\<close>, \<open>toLowerCase\<close>\<close>

type_synonym jsString = "nat list"

text \<open>A string literal of the source; all of them are ASCII.\<close>

definition str :: "string \<Rightarrow> jsString" where
  "str s = map of_char s"

text \<open>
  White space and line terminators of ECMAScript: TAB, LF, VT, FF, CR, SP, NBSP, the
  space separators U+1680, U+2000..U+200A, U+202F, U+205F and U+3000, the line and
  paragraph separators U+2028 and U+2029, and U+FEFF.
\<close>

definition js_whitespace :: "nat \<Rightarrow> bool" where
  "js_whitespace c =
     (c \<in> {0x9, 0xA, 0xB, 0xC, 0xD, 0x20, 0xA0, 0x1680, 0x2028, 0x2029, 0x202F, 0x205F,
            0x3000, 0xFEFF} \<or> (0x2000 \<le> c \<and> c \<le> 0x200A))"

definition js_trim :: "jsString \<Rightarrow> jsString" where
  "js_trim s = rev (dropWhile js_whitespace (rev (dropWhile js_whitespace s)))"

text \<open>\<open>s.includes(q)\<close>: \<open>q\<close> occurs in \<open>s\<close> as a contiguous run.\<close>

fun is_prefix :: "jsString \<Rightarrow> jsString \<Rightarrow> bool" where
  "is_prefix [] s = True"
| "is_prefix (c # q) [] = False"
| "is_prefix (c # q) (d # s) = (c = d \<and> is_prefix q s)"

fun js_includes :: "jsString \<Rightarrow> jsString \<Rightarrow> bool" where
  "js_includes [] q = (q = [])"
| "js_includes (c # s) q = (is_prefix q (c # s) \<or> js_includes s q)"

text \<open>
  \<open>toLowerCase\<close> is the built-in of the language: the default case conversion of
  Unicode applied to the whole string. It is not a map over code units: the capital
  sigma U+03A3 becomes the final sigma U+03C2 when a cased letter comes before it and
  none after it (case-ignorable characters skipped), and U+03C3 otherwise. The handler
  that calls it, \<open>handleSearch\<close>, takes the built-in as an argument. The definition
  below is the built-in on strings over Basic Latin, Latin-1 and the Greek letters
  U+0391..U+03A9 and U+03B1..U+03C9; it is used at concrete strings of that kind only.
\<close>

definition lower_unit :: "nat \<Rightarrow> nat" where
  "lower_unit c =
     (if (0x41 \<le> c \<and> c \<le> 0x5A) \<or> (0xC0 \<le> c \<and> c \<le> 0xDE \<and> c \<noteq> 0xD7) \<or>
         (0x391 \<le> c \<and> c \<le> 0x3A9 \<and> c \<noteq> 0x3A2)
      then c + 32 else c)"

definition cased_letter :: "nat \<Rightarrow> bool" where
  "cased_letter c =
     ((0x41 \<le> c \<and> c \<le> 0x5A) \<or> (0x61 \<le> c \<and> c \<le> 0x7A) \<or> c \<in> {0xAA, 0xB5, 0xBA} \<or>
      (0xC0 \<le> c \<and> c \<le> 0xFF \<and> c \<noteq> 0xD7 \<and> c \<noteq> 0xF7) \<or>
      (0x391 \<le> c \<and> c \<le> 0x3A9 \<and> c \<noteq> 0x3A2) \<or> (0x3B1 \<le> c \<and> c \<le> 0x3C9))"

definition case_ignorable :: "nat \<Rightarrow> bool" where
  "case_ignorable c = (c \<in> {0x27, 0x2E, 0x3A, 0x5E, 0x60, 0xA8, 0xAD, 0xAF, 0xB4, 0xB7, 0xB8})"

text \<open>The nearest character that is not case-ignorable is a cased letter.\<close>

definition next_is_cased :: "jsString \<Rightarrow> bool" where
  "next_is_cased cs =
     (case dropWhile case_ignorable cs of [] \<Rightarrow> False | c # _ \<Rightarrow> cased_letter c)"

text \<open>\<open>seen\<close> holds the code units before the sigma, the nearest first.\<close>

definition final_sigma :: "jsString \<Rightarrow> jsString \<Rightarrow> bool" where
  "final_sigma seen rest = (next_is_cased seen \<and> \<not> next_is_cased rest)"

fun lower_from :: "jsString \<Rightarrow> jsString \<Rightarrow> jsString" where
  "lower_from seen [] = []"
| "lower_from seen (c # rest) =
     (if c = 0x3A3 then (if final_sigma seen rest then 0x3C2 else 0x3C3) else lower_unit c)
       # lower_from (c # seen) rest"

definition toLowerCase :: "jsString \<Rightarrow> jsString" where
  "toLowerCase s = lower_from [] s"

subsection \<open>Data\<close>

text \<open>
  A note as the page holds it: the object \<open>{id, title, text, edit, tag}\<close>.
\<close>

record noteObject =
  note_id :: jsString
  note_title :: jsString
  note_text :: jsString
  note_edit :: int
  note_tag :: jsString

text \<open>
  \<open>noteData\<close>, the object \<open>{title, text, edit, tag}\<close> that \<open>addOrEditNote\<close> writes.
\<close>

record noteData =
  d_title :: jsString
  d_text :: jsString
  d_edit :: int
  d_tag :: jsString

text \<open>
  A document of a snapshot: its identifier in the store (\<open>doc.id\<close>) and its fields
  (\<open>doc.data()\<close>). The documents of the collection are the ones \<open>addOrEditNote\<close>
  wrote, so the fields are those of \<open>noteData\<close>.
\<close>

record snapshotDoc =
  doc_id :: jsString
  doc_data :: noteData

record authUser =
  uid :: jsString

text \<open>
  \<open>lastEdited\<close> starts as the empty string and is set to numbers by \<open>openModal\<close>.
  Only its truthiness is read.
\<close>

datatype stamp = StampStr jsString | StampNum int

fun truthy :: "stamp \<Rightarrow> bool" where
  "truthy (StampStr s) = (s \<noteq> [])"
| "truthy (StampNum n) = (n \<noteq> 0)"

text \<open>
  \<open>errorModal\<close> is the object \<open>{isOpen, message}\<close>, or the value \<open>false\<close> after
  \<open>closeErrorModal\<close>.
\<close>

datatype errorModalState = ErrorModalObj bool jsString | ErrorModalFalse

fun errorModal_isOpen :: "errorModalState \<Rightarrow> bool" where
  "errorModal_isOpen (ErrorModalObj b m) = b"
| "errorModal_isOpen ErrorModalFalse = False"

record state =
  "notes" :: "noteObject list"
  newNote :: jsString
  newTitle :: jsString
  lastEdited :: stamp
  tag :: jsString
  searchQuery :: jsString
  filteredNotes :: "noteObject list"
  isModalOpen :: bool
  isAnimating :: bool
  editIndex :: "int option"
  loading :: bool
  errorModal :: errorModalState
  user :: "authUser option"

text \<open>The values of the \<open>useState\<close> calls; the user comes from \<open>useAuthState\<close>.\<close>

definition initial_state :: "authUser option \<Rightarrow> state" where
  "initial_state u =
     \<lparr>notes = [], newNote = [], newTitle = [], lastEdited = StampStr [], tag = [],
      searchQuery = [], filteredNotes = [], isModalOpen = False, isAnimating = False,
      editIndex = None, loading = True,
      errorModal = ErrorModalObj False [], user = u\<rparr>"

subsection \<open>Effects and results\<close>

text \<open>
  A request names its target by the path segments given to \<open>collection\<close> or \<open>doc\<close>.
\<close>

datatype request =
    AddDoc "jsString list" noteData
  | UpdateDoc "jsString list" noteData
  | DeleteDoc "jsString list"

datatype timerAction = SetIsAnimating bool | SetIsModalOpen bool

datatype effect =
    Request request
  | SetTimeout timerAction nat
  | ConsoleError jsString

datatype failure = TypeError | WriteRejected

text \<open>How the promise of an awaited write settles.\<close>

datatype writeOutcome = Resolved | Rejected

record result =
  st :: state
  effects :: "effect list"
  raised :: "failure option"

fun run_timer :: "timerAction \<Rightarrow> state \<Rightarrow> state" where
  "run_timer (SetIsAnimating b) s = s\<lparr>isAnimating := b\<rparr>"
| "run_timer (SetIsModalOpen b) s = s\<lparr>isModalOpen := b\<rparr>"

text \<open>
  \<open>xs[i]\<close> for a number \<open>i\<close>: \<open>undefined\<close> (here \<open>None\<close>) outside the array.
\<close>

definition js_index :: "'a list \<Rightarrow> int \<Rightarrow> 'a option" where
  "js_index xs i = (if 0 \<le> i \<and> i < int (length xs) then Some (xs ! nat i) else None)"

subsection \<open>The handlers\<close>

text \<open>
  \<open>openModal(index)\<close>. Reading a property of \<open>notes[index]\<close> when that is
  \<open>undefined\<close> throws before any state is set.
\<close>

definition openModal :: "int \<Rightarrow> int option \<Rightarrow> state \<Rightarrow> result" where
  "openModal now index s =
     (case index of
        Some i \<Rightarrow>
          (case js_index (notes s) i of
             None \<Rightarrow> \<lparr>st = s, effects = [], raised = Some TypeError\<rparr>
           | Some n \<Rightarrow>
               \<lparr>st = s\<lparr>newTitle := note_title n,
                        newNote := (if note_text n \<noteq> [] then note_text n else []),
                        lastEdited := StampNum (if note_edit n \<noteq> 0 then note_edit n else now),
                        tag := note_tag n,
                        editIndex := Some i,
                        isModalOpen := True\<rparr>,
                effects = [SetTimeout (SetIsAnimating True) 0],
                raised = None\<rparr>)
      | None \<Rightarrow>
          \<lparr>st = s\<lparr>newTitle := [], newNote := [], lastEdited := StampNum now, tag := [],
                   editIndex := None, isModalOpen := True\<rparr>,
           effects = [SetTimeout (SetIsAnimating True) 0],
           raised = None\<rparr>)"

definition closeModal :: "state \<Rightarrow> result" where
  "closeModal s =
     \<lparr>st = s\<lparr>isAnimating := False\<rparr>,
      effects = [SetTimeout (SetIsModalOpen False) 700],
      raised = None\<rparr>"

definition closeErrorModal :: "state \<Rightarrow> result" where
  "closeErrorModal s = \<lparr>st = s\<lparr>errorModal := ErrorModalFalse\<rparr>, effects = [], raised = None\<rparr>"

text \<open>
  \<open>await write; closeModal();\<close> the request is issued; when its promise resolves the
  modal is closed, when it rejects the handler ends there with the rejection.
\<close>

definition await_then_close :: "writeOutcome \<Rightarrow> request \<Rightarrow> state \<Rightarrow> result" where
  "await_then_close w req s =
     (case w of
        Resolved \<Rightarrow>
          \<lparr>st = st (closeModal s), effects = Request req # effects (closeModal s),
           raised = None\<rparr>
      | Rejected \<Rightarrow> \<lparr>st = s, effects = [Request req], raised = Some WriteRejected\<rparr>)"

text \<open>
  \<open>addOrEditNote\<close>. The guard \<open>newTitle.trim() && newNote.trim() && lastEdited && user\<close>
  is truthy when both trimmed strings are non-empty, \<open>lastEdited\<close> is truthy and there
  is a user; its value is then that user. \<open>currentStamp\<close> is the reading of
  \<open>Date.now()\<close>. In edit mode \<open>notes[editIndex].id\<close> is read before the request is
  issued, and throws when the index is outside the list.
\<close>

definition addOrEditNote :: "int \<Rightarrow> writeOutcome \<Rightarrow> state \<Rightarrow> result" where
  "addOrEditNote currentStamp w s =
     (case (if js_trim (newTitle s) \<noteq> [] \<and> js_trim (newNote s) \<noteq> [] \<and> truthy (lastEdited s)
            then user s else None) of
        Some u \<Rightarrow>
          (let noteData = \<lparr>d_title = newTitle s, d_text = newNote s,
                           d_edit = currentStamp, d_tag = tag s\<rparr>
           in case editIndex s of
                Some i \<Rightarrow>
                  (case js_index (notes s) i of
                     None \<Rightarrow> \<lparr>st = s, effects = [], raised = Some TypeError\<rparr>
                   | Some n \<Rightarrow>
                       await_then_close w
                         (UpdateDoc [str ''users'', uid u, str ''notes'', note_id n] noteData) s)
              | None \<Rightarrow>
                  await_then_close w (AddDoc [str ''users'', uid u, str ''notes''] noteData) s)
      | None \<Rightarrow>
          \<lparr>st = s\<lparr>errorModal := ErrorModalObj True (str ''Please fill in all fields.'')\<rparr>,
           effects = [], raised = None\<rparr>)"

text \<open>\<open>deleteNote\<close>, guarded by \<open>editIndex !== null && user\<close>.\<close>

definition deleteNote :: "writeOutcome \<Rightarrow> state \<Rightarrow> result" where
  "deleteNote w s =
     (case (editIndex s, user s) of
        (Some i, Some u) \<Rightarrow>
          (case js_index (notes s) i of
             None \<Rightarrow> \<lparr>st = s, effects = [], raised = Some TypeError\<rparr>
           | Some n \<Rightarrow>
               await_then_close w
                 (DeleteDoc [str ''users'', uid u, str ''notes'', note_id n]) s)
      | _ \<Rightarrow> \<lparr>st = s, effects = [], raised = None\<rparr>)"

text \<open>
  \<open>handleSearch\<close>, the click handler of the search icon; \<open>lower\<close> is the built-in
  \<open>toLowerCase\<close>.
\<close>

definition handleSearch :: "(jsString \<Rightarrow> jsString) \<Rightarrow> state \<Rightarrow> result" where
  "handleSearch lower s =
     (if searchQuery s = []
      then \<lparr>st = s\<lparr>filteredNotes := notes s\<rparr>, effects = [], raised = None\<rparr>
      else \<lparr>st = s\<lparr>filteredNotes :=
                      filter (\<lambda>note. js_includes (lower (note_title note))
                                               (lower (searchQuery s)))
                             (notes s)\<rparr>,
            effects = [], raised = None\<rparr>)"

text \<open>The \<open>onChange\<close> handler of the search input.\<close>

definition setSearchQuery :: "jsString \<Rightarrow> state \<Rightarrow> result" where
  "setSearchQuery v s = \<lparr>st = s\<lparr>searchQuery := v\<rparr>, effects = [], raised = None\<rparr>"

definition getBorderColor :: "jsString \<Rightarrow> jsString" where
  "getBorderColor t =
     (if t = str ''Work'' then str ''border-red-500''
      else if t = str ''School'' then str ''border-blue-500''
      else if t = str ''Personal'' then str ''border-yellow-500''
      else str ''border-gray-500'')"

definition getFontColor :: "jsString \<Rightarrow> jsString" where
  "getFontColor t =
     (if t = str ''Work'' then str ''text-red-500''
      else if t = str ''School'' then str ''text-blue-500''
      else if t = str ''Personal'' then str ''text-yellow-500''
      else str ''text-gray-500'')"

subsection \<open>The subscription\<close>

text \<open>
  The effect hook: with a user it subscribes to the user's notes ordered by \<open>edit\<close>,
  descending; without one it does nothing.
\<close>

datatype subscription = OnSnapshot "jsString list" jsString jsString

definition useEffect_subscribe :: "authUser option \<Rightarrow> subscription list" where
  "useEffect_subscribe u =
     (case u of
        Some v \<Rightarrow> [OnSnapshot [str ''users'', uid v, str ''notes''] (str ''edit'') (str ''desc'')]
      | None \<Rightarrow> [])"

text \<open>\<open>{id: doc.id, ...doc.data()}\<close>\<close>

definition note_of_doc :: "snapshotDoc \<Rightarrow> noteObject" where
  "note_of_doc d =
     \<lparr>note_id = doc_id d,
      note_title = d_title (doc_data d),
      note_text = d_text (doc_data d),
      note_edit = d_edit (doc_data d),
      note_tag = d_tag (doc_data d)\<rparr>"

definition onSnapshot_next :: "snapshotDoc list \<Rightarrow> state \<Rightarrow> result" where
  "onSnapshot_next docs s =
     \<lparr>st = s\<lparr>notes := map note_of_doc docs, loading := False\<rparr>,
      effects = [], raised = None\<rparr>"

definition onSnapshot_error :: "jsString \<Rightarrow> state \<Rightarrow> result" where
  "onSnapshot_error err s =
     \<lparr>st = s\<lparr>loading := False\<rparr>,
      effects = [ConsoleError (str ''Error fetching notes: '' @ err)],
      raised = None\<rparr>"

subsection \<open>Rendering\<close>

text \<open>
  What the component returns, as far as it shows notes. The sanitizer
  (\<open>DOMPurify.sanitize\<close>) and the date format (\<open>toLocaleString\<close>) belong to libraries
  and are arguments.
\<close>

fun findIndex_from :: "('a \<Rightarrow> bool) \<Rightarrow> 'a list \<Rightarrow> int \<Rightarrow> int" where
  "findIndex_from P [] k = - 1"
| "findIndex_from P (x # xs) k = (if P x then k else findIndex_from P xs (k + 1))"

definition findIndex :: "('a \<Rightarrow> bool) \<Rightarrow> 'a list \<Rightarrow> int" where
  "findIndex P xs = findIndex_from P xs 0"

datatype itemKey = KeyId jsString | KeyIndex nat

datatype spanContent = TextChild jsString | DangerousInnerHTML jsString

record listItem =
  item_key :: itemKey
  item_onClick :: int
  item_border :: jsString
  item_title :: spanContent
  item_body :: spanContent
  item_date :: jsString
  item_font :: jsString
  item_tag :: spanContent

definition render_filtered_item ::
  "(jsString \<Rightarrow> jsString) \<Rightarrow> (int \<Rightarrow> jsString) \<Rightarrow> noteObject list \<Rightarrow> noteObject \<Rightarrow> listItem" where
  "render_filtered_item sanitize fmt ns n =
     \<lparr>item_key = KeyId (note_id n),
      item_onClick = findIndex (\<lambda>m. note_id m = note_id n) ns,
      item_border = getBorderColor (note_tag n),
      item_title = TextChild (note_title n),
      item_body = DangerousInnerHTML (sanitize (note_text n)),
      item_date = fmt (note_edit n),
      item_font = getFontColor (note_tag n),
      item_tag = TextChild (note_tag n)\<rparr>"

definition render_list_item ::
  "(jsString \<Rightarrow> jsString) \<Rightarrow> (int \<Rightarrow> jsString) \<Rightarrow> nat \<times> noteObject \<Rightarrow> listItem" where
  "render_list_item sanitize fmt p =
     (case p of (index, n) \<Rightarrow>
        \<lparr>item_key = KeyIndex index,
         item_onClick = int index,
         item_border = getBorderColor (note_tag n),
         item_title = TextChild (note_title n),
         item_body = DangerousInnerHTML (sanitize (note_text n)),
         item_date = fmt (note_edit n),
         item_font = getFontColor (note_tag n),
         item_tag = TextChild (note_tag n)\<rparr>)"

datatype notesList = NoNotesYet | NotesUl "listItem list"

datatype view = Spinner | Page "listItem list" notesList

definition render :: "(jsString \<Rightarrow> jsString) \<Rightarrow> (int \<Rightarrow> jsString) \<Rightarrow> state \<Rightarrow> view" where
  "render sanitize fmt s =
     (if loading s then Spinner
      else Page (map (render_filtered_item sanitize fmt (notes s)) (filteredNotes s))
                (if length (notes s) > 0
                 then NotesUl (map (render_list_item sanitize fmt)
                                   (zip [0..<length (notes s)] (notes s)))
                 else NoNotesYet))"

subsection \<open>Reading results\<close>

text \<open>The requests among the effects of a handler, in the order they were issued.\<close>

fun requests_of :: "effect list \<Rightarrow> request list" where
  "requests_of [] = []"
| "requests_of (Request r # es) = r # requests_of es"
| "requests_of (SetTimeout a d # es) = requests_of es"
| "requests_of (ConsoleError m # es) = requests_of es"

subsection \<open>The specification's notions\<close>

text \<open>
  The specification's SearchFilter, with the lower-casing it compares under: from the
  list and the query alone, the notes whose lower-cased title has the lower-cased query
  as a substring; every note for the empty query.
\<close>

definition search_filter ::
  "(jsString \<Rightarrow> jsString) \<Rightarrow> noteObject list \<Rightarrow> jsString \<Rightarrow> noteObject list" where
  "search_filter lower ns q =
     filter (\<lambda>n. q = [] \<or> sublist (lower q) (lower (note_title n))) ns"


text \<open>
  The round trip of the specification, read off the effects of a submit: exactly one
  request was issued, it is an update whose target ends in the note's identifier, its
  title, text and tag are the note's, and its \<open>edit\<close> is strictly greater than the
  note's.
\<close>

definition roundtrip_update_ok :: "noteObject \<Rightarrow> effect list \<Rightarrow> bool" where
  "roundtrip_update_ok n es =
     (case requests_of es of
        [UpdateDoc p d] \<Rightarrow>
          p \<noteq> [] \<and> last p = note_id n \<and> d_title d = note_title n \<and> d_text d = note_text n \<and>
          d_tag d = note_tag n \<and> note_edit n < d_edit d
      | _ \<Rightarrow> False)"

subsection \<open>Example states\<close>

definition example_user :: authUser where
  "example_user = \<lparr>uid = str ''u1''\<rparr>"

definition groceries :: noteObject where
  "groceries =
     \<lparr>note_id = str ''1'', note_title = str ''Groceries'', note_text = str ''<p>milk</p>'',
      note_edit = 100, note_tag = str ''Personal''\<rparr>"

definition blank_titled :: noteObject where
  "blank_titled = groceries\<lparr>note_title := str '' ''\<rparr>"

definition unstamped :: noteObject where
  "unstamped = groceries\<lparr>note_edit := 0\<rparr>"

text \<open>A signed-in user whose one note has arrived.\<close>

definition example_state :: state where
  "example_state = (initial_state (Some example_user))\<lparr>notes := [groceries], loading := False\<rparr>"

text \<open>The create modal with a title and an empty body.\<close>

definition blank_body_draft :: state where
  "blank_body_draft =
     example_state\<lparr>newTitle := str ''Trip'', newNote := [], tag := str ''Work'',
                   lastEdited := StampNum 50, isModalOpen := True\<rparr>"

text \<open>The create modal with every field filled in.\<close>

definition valid_create_draft :: state where
  "valid_create_draft =
     example_state\<lparr>newTitle := str ''Trip'', newNote := str ''<p>pack</p>'', tag := str ''Work'',
                   lastEdited := StampNum 50, isModalOpen := True\<rparr>"

text \<open>The same draft on a page without a user.\<close>

definition signed_out_draft :: state where
  "signed_out_draft =
     (initial_state None)\<lparr>newTitle := str ''Trip'', newNote := str ''<p>pack</p>'',
                           tag := str ''Work'', lastEdited := StampNum 50,
                           isModalOpen := True, loading := False\<rparr>"

text \<open>A query that differs from the title in the case of every letter it has.\<close>

definition groc_query_state :: state where
  "groc_query_state = example_state\<lparr>searchQuery := str ''gROC''\<rparr>"





text \<open>The edit modal on the first note, after its opening animation has started.\<close>

definition editing_state :: state where
  "editing_state = run_timer (SetIsAnimating True) (st (openModal 40 (Some 0) example_state))"

text \<open>The document behind the example note.\<close>

definition plain_doc :: snapshotDoc where
  "plain_doc =
     \<lparr>doc_id = str ''1'',
      doc_data = \<lparr>d_title = str ''Groceries'', d_text = str ''<p>milk</p>'',
                  d_edit = 100, d_tag = str ''Personal''\<rparr>\<rparr>"

definition first_snapshot_state :: state where
  "first_snapshot_state = st (onSnapshot_next [plain_doc] (initial_state (Some example_user)))"

text \<open>Stand-ins for the sanitizer and the date format, to render an example.\<close>

definition toy_sanitize :: "jsString \<Rightarrow> jsString" where
  "toy_sanitize t = filter (\<lambda>c. c \<noteq> 0x3C \<and> c \<noteq> 0x3E) t"

definition toy_date :: "int \<Rightarrow> jsString" where
  "toy_date n = (if n = 100 then str ''Jan 1, 1970, 12:00 AM'' else str ''later'')"

section \<open>Properties\<close>

subsection \<open>Strings and indexing\<close>

lemma js_trim_empty_iff: "js_trim s = [] \<longleftrightarrow> (\<forall>c\<in>set s. js_whitespace c)"
proof
  assume "js_trim s = []"
  then have "\<forall>c\<in>set (dropWhile js_whitespace s). js_whitespace c"
    by (simp add: js_trim_def dropWhile_eq_Nil_conv)
  then have "dropWhile js_whitespace s = []"
    by (metis hd_dropWhile hd_in_set)
  then show "\<forall>c\<in>set s. js_whitespace c" by (simp add: dropWhile_eq_Nil_conv)
next
  assume "\<forall>c\<in>set s. js_whitespace c"
  then have "dropWhile js_whitespace s = []" by simp
  then show "js_trim s = []" by (simp add: js_trim_def del: dropWhile_eq_Nil_conv)
qed

lemma is_prefix_iff: "is_prefix q s \<longleftrightarrow> prefix q s"
  by (induction q s rule: is_prefix.induct) auto

lemma js_includes_iff: "js_includes s q \<longleftrightarrow> sublist q s"
  by (induction s) (auto simp: is_prefix_iff sublist_Cons_right)



lemma js_index_nat: "i < length xs \<Longrightarrow> js_index xs (int i) = Some (xs ! i)"
  by (simp add: js_index_def)

lemma map_zip_snd:
  "length xs = length ys \<Longrightarrow> map (\<lambda>p. g (snd p)) (zip xs ys) = map g ys"
  by (induction xs ys rule: list_induct2) auto

text \<open>
  The lower-casing of single code units folds the case of letters, and on a string
  without a capital sigma \<open>toLowerCase\<close> is that folding of each unit.
\<close>

lemma lower_unit_folds:
  "lower_unit 0x47 = 0x67" "lower_unit 0x67 = 0x67" "lower_unit 0xC9 = 0xE9"
  "lower_unit 0x39A = 0x3BA" "lower_unit 0x31 = 0x31"
  by (simp_all add: lower_unit_def)

lemma toLowerCase_mixed_case: "toLowerCase (str ''GroCeries'') = str ''groceries''"
  by (simp add: toLowerCase_def str_def lower_unit_def)




subsection \<open>Validation on submit\<close>

text \<open>
  C1. When the draft's title or its body trims to the empty string (it is empty or
  consists of white space only), \<open>addOrEditNote\<close> opens the error modal with its
  message, issues no request and no other effect, and changes nothing else; this holds
  whatever \<open>editIndex\<close> is, so both when creating and when updating.
\<close>

theorem addOrEditNote_rejects_blank:
  "js_trim (newTitle s) = [] \<or> js_trim (newNote s) = [] \<Longrightarrow>
   addOrEditNote now w s =
     \<lparr>st = s\<lparr>errorModal := ErrorModalObj True (str ''Please fill in all fields.'')\<rparr>,
      effects = [], raised = None\<rparr>"
  by (auto simp: addOrEditNote_def)

text \<open>The specification's scenario: title "Trip", empty body, tag "Work".\<close>

theorem addOrEditNote_rejects_blank_witness:
  "(js_trim (newTitle blank_body_draft) = [] \<or> js_trim (newNote blank_body_draft) = []) \<and>
   addOrEditNote 100 Resolved blank_body_draft =
     \<lparr>st = blank_body_draft
             \<lparr>errorModal := ErrorModalObj True (str ''Please fill in all fields.'')\<rparr>,
      effects = [], raised = None\<rparr>"
proof -
  have h: "js_trim (newTitle blank_body_draft) = [] \<or> js_trim (newNote blank_body_draft) = []"
    by (simp add: blank_body_draft_def js_trim_def)
  show ?thesis using h addOrEditNote_rejects_blank [OF h] by simp
qed

subsection \<open>Search\<close>



lemma groc_filtered:
  "filteredNotes (st (handleSearch toLowerCase groc_query_state)) = [groceries]"
  by (simp add: handleSearch_def groc_query_state_def example_state_def initial_state_def
      groceries_def toLowerCase_def lower_unit_def str_def)


text \<open>The specification's scenario: "group" finds nothing, "Groc" finds the note.\<close>

lemma scenario_filtered:
  "filteredNotes (st (handleSearch toLowerCase (example_state\<lparr>searchQuery := str ''group''\<rparr>))) = []"
  "filteredNotes (st (handleSearch toLowerCase (example_state\<lparr>searchQuery := str ''Groc''\<rparr>))) =
     [groceries]"
  by (simp_all add: handleSearch_def example_state_def initial_state_def groceries_def
      toLowerCase_def lower_unit_def str_def)

text \<open>
  C9, as the code has it. \<open>filteredNotes\<close> is a state variable that only
  \<open>handleSearch\<close> sets, on a click. After the first snapshot the list holds a note and
  the query is empty, so the filter gives the whole list, but nothing is displayed as
  filtered.
\<close>

theorem displayed_filter_counterexample:
  "notes first_snapshot_state = [groceries] \<and> searchQuery first_snapshot_state = [] \<and>
   filteredNotes first_snapshot_state = [] \<and>
   search_filter toLowerCase (notes first_snapshot_state) (searchQuery first_snapshot_state) =
     [groceries] \<and>
   filteredNotes first_snapshot_state \<noteq>
     search_filter toLowerCase (notes first_snapshot_state) (searchQuery first_snapshot_state)"
  by (simp add: first_snapshot_state_def onSnapshot_next_def note_of_doc_def plain_doc_def
      initial_state_def groceries_def search_filter_def)

text \<open>
  C9 (amended). The filter is a function of the list and the query alone.
  \<open>handleSearch\<close> sets \<open>filteredNotes\<close> to the filter's value on the current list and
  query and does nothing else: no effect, no exception, no other state. The filtered list
  it produces is the same from any two states with the same list and the same query.
  Running it again on the state it produced gives the same result, and right after it ran
  the displayed filtered list is the filter's value on the current list and query. The
  filtered list is kept in the state: a snapshot that replaces the list and a change of
  the query in the search input leave it as it was.
\<close>

theorem handleSearch_recomputes_filter:
  "handleSearch lower s =
     \<lparr>st = s\<lparr>filteredNotes := search_filter lower (notes s) (searchQuery s)\<rparr>,
      effects = [], raised = None\<rparr> \<and>
   (notes s' = notes s \<and> searchQuery s' = searchQuery s \<longrightarrow>
      filteredNotes (st (handleSearch lower s')) = filteredNotes (st (handleSearch lower s))) \<and>
   handleSearch lower (st (handleSearch lower s)) = handleSearch lower s \<and>
   filteredNotes (st (handleSearch lower s)) =
     search_filter lower (notes (st (handleSearch lower s)))
       (searchQuery (st (handleSearch lower s))) \<and>
   filteredNotes (st (onSnapshot_next docs s)) = filteredNotes s \<and>
   filteredNotes (st (setSearchQuery v s)) = filteredNotes s"
proof -
  have eq: "handleSearch lower t =
     \<lparr>st = t\<lparr>filteredNotes := search_filter lower (notes t) (searchQuery t)\<rparr>,
      effects = [], raised = None\<rparr>" for t
    by (simp add: handleSearch_def search_filter_def js_includes_iff)
  show ?thesis
    by (simp add: eq onSnapshot_next_def setSearchQuery_def)
qed

theorem handleSearch_recomputes_filter_witness:
  "notes groc_query_state = notes (groc_query_state\<lparr>isModalOpen := True\<rparr>) \<and>
   searchQuery groc_query_state = searchQuery (groc_query_state\<lparr>isModalOpen := True\<rparr>) \<and>
   filteredNotes (st (handleSearch toLowerCase (groc_query_state\<lparr>isModalOpen := True\<rparr>))) =
     [groceries] \<and>
   filteredNotes (st (handleSearch toLowerCase groc_query_state)) = [groceries] \<and>
   search_filter toLowerCase (notes groc_query_state) (searchQuery groc_query_state) =
     [groceries] \<and>
   filteredNotes (st (onSnapshot_next [] (st (handleSearch toLowerCase groc_query_state)))) =
     [groceries] \<and>
   notes (st (onSnapshot_next [] (st (handleSearch toLowerCase groc_query_state)))) = [] \<and>
   filteredNotes (st (setSearchQuery (str ''x'') (st (handleSearch toLowerCase groc_query_state)))) =
     [groceries]"
proof -
  have h: "notes (groc_query_state\<lparr>isModalOpen := True\<rparr>) = notes groc_query_state \<and>
           searchQuery (groc_query_state\<lparr>isModalOpen := True\<rparr>) = searchQuery groc_query_state"
    by simp
  have a: "filteredNotes (st (handleSearch toLowerCase (groc_query_state\<lparr>isModalOpen := True\<rparr>))) =
           filteredNotes (st (handleSearch toLowerCase groc_query_state))"
    using handleSearch_recomputes_filter
      [where s = groc_query_state and s' = "groc_query_state\<lparr>isModalOpen := True\<rparr>"
        and lower = toLowerCase]
      h by blast
  have b: "search_filter toLowerCase (notes groc_query_state) (searchQuery groc_query_state) =
           filteredNotes (st (handleSearch toLowerCase groc_query_state))"
    using handleSearch_recomputes_filter [where s = groc_query_state and lower = toLowerCase]
    by simp
  have c: "filteredNotes (st (onSnapshot_next [] (st (handleSearch toLowerCase groc_query_state)))) =
           filteredNotes (st (handleSearch toLowerCase groc_query_state))"
    "filteredNotes (st (setSearchQuery (str ''x'') (st (handleSearch toLowerCase groc_query_state)))) =
           filteredNotes (st (handleSearch toLowerCase groc_query_state))"
    using handleSearch_recomputes_filter
      [where s = "st (handleSearch toLowerCase groc_query_state)" and lower = toLowerCase]
    by blast+
  have d: "notes (st (onSnapshot_next [] (st (handleSearch toLowerCase groc_query_state)))) = []"
    by (simp add: onSnapshot_next_def)
  show ?thesis
    using a b c d groc_filtered by simp
qed

subsection \<open>Submitting an edit\<close>

text \<open>
  C3, as the code has it. The update carries the reading of the clock at the submit,
  whatever the note's earlier \<open>edit\<close> was: with a note stamped 100 and a clock reading
  50 the update is issued with \<open>edit\<close> 50. Without a user, with a note whose title is
  blank, or with a note stamped 0 opened when the clock reads 0, no update is issued.
\<close>

theorem roundtrip_counterexample:
  "requests_of (effects (addOrEditNote 50 Resolved (st (openModal 40 (Some 0) example_state)))) =
     [UpdateDoc [str ''users'', str ''u1'', str ''notes'', str ''1'']
        \<lparr>d_title = str ''Groceries'', d_text = str ''<p>milk</p>'', d_edit = 50,
         d_tag = str ''Personal''\<rparr>] \<and>
   note_edit (notes example_state ! 0) = 100 \<and>
   \<not> roundtrip_update_ok (notes example_state ! 0)
       (effects (addOrEditNote 50 Resolved (st (openModal 40 (Some 0) example_state)))) \<and>
   \<not> roundtrip_update_ok groceries
       (effects (addOrEditNote 500 Resolved
          (st (openModal 400 (Some 0) (example_state\<lparr>user := None\<rparr>))))) \<and>
   \<not> roundtrip_update_ok blank_titled
       (effects (addOrEditNote 500 Resolved
          (st (openModal 400 (Some 0) (example_state\<lparr>notes := [blank_titled]\<rparr>))))) \<and>
   \<not> roundtrip_update_ok unstamped
       (effects (addOrEditNote 500 Resolved
          (st (openModal 0 (Some 0) (example_state\<lparr>notes := [unstamped]\<rparr>)))))"
  by (simp add: roundtrip_update_ok_def addOrEditNote_def openModal_def js_index_def
      example_state_def initial_state_def groceries_def blank_titled_def unstamped_def
      example_user_def js_trim_def js_whitespace_def await_then_close_def closeModal_def
      str_def)

text \<open>
  C3 (amended). Let \<open>i\<close> be an index within the notes list, a user be resolved, the
  title and the text of note \<open>i\<close> not be blank, and note \<open>i\<close>'s \<open>edit\<close> or the clock
  at opening be non-zero. Then \<open>openModal(i)\<close> followed at once by \<open>addOrEditNote\<close>
  issues exactly one request: an update of the document with note \<open>i\<close>'s identifier
  under the user's notes, with the title, text and tag of note \<open>i\<close> and with \<open>edit\<close>
  set to the clock reading at the submit. That \<open>edit\<close> is strictly greater than the
  note's earlier one exactly when the clock reads later than it.
\<close>

theorem roundtrip_update:
  assumes "i < length (notes s)" and "user s = Some u"
    and "js_trim (note_title (notes s ! i)) \<noteq> []"
    and "js_trim (note_text (notes s ! i)) \<noteq> []"
    and "note_edit (notes s ! i) \<noteq> 0 \<or> now1 \<noteq> 0"
  shows "requests_of (effects (addOrEditNote now2 w (st (openModal now1 (Some (int i)) s)))) =
           [UpdateDoc [str ''users'', uid u, str ''notes'', note_id (notes s ! i)]
              \<lparr>d_title = note_title (notes s ! i), d_text = note_text (notes s ! i),
               d_edit = now2, d_tag = note_tag (notes s ! i)\<rparr>] \<and>
         (roundtrip_update_ok (notes s ! i)
            (effects (addOrEditNote now2 w (st (openModal now1 (Some (int i)) s))))
          \<longleftrightarrow> note_edit (notes s ! i) < now2)"
proof -
  let ?n = "notes s ! i"
  let ?s1 = "st (openModal now1 (Some (int i)) s)"
  have open1: "?s1 = s\<lparr>newTitle := note_title ?n,
                        newNote := (if note_text ?n \<noteq> [] then note_text ?n else []),
                        lastEdited := StampNum (if note_edit ?n \<noteq> 0 then note_edit ?n else now1),
                        tag := note_tag ?n, editIndex := Some (int i), isModalOpen := True\<rparr>"
    using assms(1) by (simp add: openModal_def js_index_nat)
  have nt: "note_text ?n \<noteq> []"
    using assms(4) by (auto simp: js_trim_def)
  have req: "requests_of (effects (addOrEditNote now2 w ?s1)) =
           [UpdateDoc [str ''users'', uid u, str ''notes'', note_id ?n]
              \<lparr>d_title = note_title ?n, d_text = note_text ?n, d_edit = now2, d_tag = note_tag ?n\<rparr>]"
    using assms nt by (cases w) (auto simp add: open1 addOrEditNote_def js_index_nat
        await_then_close_def closeModal_def)
  show ?thesis unfolding req roundtrip_update_ok_def by (simp add: req)
qed

theorem roundtrip_update_witness:
  "(0::nat) < length (notes example_state) \<and> user example_state = Some example_user \<and>
   js_trim (note_title (notes example_state ! 0)) \<noteq> [] \<and>
   js_trim (note_text (notes example_state ! 0)) \<noteq> [] \<and>
   note_edit (notes example_state ! 0) \<noteq> 0 \<and>
   requests_of (effects (addOrEditNote 500 Resolved (st (openModal 40 (Some 0) example_state)))) =
     [UpdateDoc [str ''users'', str ''u1'', str ''notes'', str ''1'']
        \<lparr>d_title = str ''Groceries'', d_text = str ''<p>milk</p>'', d_edit = 500,
         d_tag = str ''Personal''\<rparr>] \<and>
   roundtrip_update_ok (notes example_state ! 0)
     (effects (addOrEditNote 500 Resolved (st (openModal 40 (Some 0) example_state))))"
proof -
  have h1: "0 < length (notes example_state)"
    and h2: "user example_state = Some example_user"
    and h3: "js_trim (note_title (notes example_state ! 0)) \<noteq> []"
    and h4: "js_trim (note_text (notes example_state ! 0)) \<noteq> []"
    and h5: "note_edit (notes example_state ! 0) \<noteq> 0 \<or> (40::int) \<noteq> 0"
    by (simp_all add: example_state_def initial_state_def groceries_def js_trim_def
        js_whitespace_def str_def)
  have n: "notes example_state ! 0 = groceries"
    by (simp add: example_state_def)
  show ?thesis
    using roundtrip_update [OF h1 h2 h3 h4 h5, of 500 Resolved] h1 h2 h3 h4
    by (simp add: n groceries_def example_user_def)
qed

subsection \<open>Submitting a new note\<close>

text \<open>
  C5, as the code has it. The guard of \<open>addOrEditNote\<close> also asks for a user: a draft
  with title, body and time stamp submitted in create mode on a page without a user
  sends nothing.
\<close>

theorem create_counterexample:
  "js_trim (newTitle signed_out_draft) \<noteq> [] \<and> js_trim (newNote signed_out_draft) \<noteq> [] \<and>
   truthy (lastEdited signed_out_draft) \<and> editIndex signed_out_draft = None \<and>
   effects (addOrEditNote 100 Resolved signed_out_draft) = []"
  by (simp add: signed_out_draft_def initial_state_def addOrEditNote_def js_trim_def
      js_whitespace_def str_def)

text \<open>
  C5 (amended). For a draft whose title and body are not blank and whose
  \<open>lastEdited\<close> is set, submitted in create mode while a user is resolved, exactly one
  request is sent: a new document under the user's notes with the draft's title, body
  and tag and with \<open>edit\<close> set to the clock reading at the submit. The call leaves the
  notes list and the filtered list as they were.
\<close>

theorem create_sends_one_request:
  assumes "js_trim (newTitle s) \<noteq> []" and "js_trim (newNote s) \<noteq> []"
    and "truthy (lastEdited s)" and "editIndex s = None" and "user s = Some u"
  shows "requests_of (effects (addOrEditNote now w s)) =
           [AddDoc [str ''users'', uid u, str ''notes'']
              \<lparr>d_title = newTitle s, d_text = newNote s, d_edit = now, d_tag = tag s\<rparr>] \<and>
         notes (st (addOrEditNote now w s)) = notes s \<and>
         filteredNotes (st (addOrEditNote now w s)) = filteredNotes s"
  using assms
  by (cases w) (simp_all add: addOrEditNote_def await_then_close_def closeModal_def)

theorem create_sends_one_request_witness:
  "js_trim (newTitle valid_create_draft) \<noteq> [] \<and> js_trim (newNote valid_create_draft) \<noteq> [] \<and>
   truthy (lastEdited valid_create_draft) \<and> editIndex valid_create_draft = None \<and>
   user valid_create_draft = Some example_user \<and>
   requests_of (effects (addOrEditNote 100 Resolved valid_create_draft)) =
     [AddDoc [str ''users'', str ''u1'', str ''notes'']
        \<lparr>d_title = str ''Trip'', d_text = str ''<p>pack</p>'', d_edit = 100,
         d_tag = str ''Work''\<rparr>] \<and>
   notes (st (addOrEditNote 100 Resolved valid_create_draft)) = [groceries]"
proof -
  have h1: "js_trim (newTitle valid_create_draft) \<noteq> []"
    and h2: "js_trim (newNote valid_create_draft) \<noteq> []"
    and h3: "truthy (lastEdited valid_create_draft)"
    and h4: "editIndex valid_create_draft = None"
    and h5: "user valid_create_draft = Some example_user"
    by (simp_all add: valid_create_draft_def example_state_def initial_state_def js_trim_def
        js_whitespace_def str_def)
  have d: "newTitle valid_create_draft = str ''Trip''"
    "newNote valid_create_draft = str ''<p>pack</p>''"
    "tag valid_create_draft = str ''Work''" "notes valid_create_draft = [groceries]"
    by (simp_all add: valid_create_draft_def example_state_def)
  show ?thesis
    using create_sends_one_request [OF h1 h2 h3 h4 h5, of 100 Resolved] h1 h2 h3 h4 h5
    by (simp add: d example_user_def)
qed

text \<open>
  No handler of the page touches the notes list; it changes with a snapshot only.
\<close>

lemma handlers_keep_notes:
  "notes (st (openModal now index s)) = notes s"
  "notes (st (closeModal s)) = notes s"
  "notes (st (closeErrorModal s)) = notes s"
  "notes (st (addOrEditNote now w s)) = notes s"
  "notes (st (deleteNote w s)) = notes s"
  "notes (st (handleSearch lower s)) = notes s"
  "notes (st (setSearchQuery v s)) = notes s"
  "notes (st (onSnapshot_error err s)) = notes s"
  by (cases w; simp add: openModal_def closeModal_def closeErrorModal_def addOrEditNote_def
      deleteNote_def handleSearch_def setSearchQuery_def onSnapshot_error_def
      await_then_close_def Let_def split: option.splits)+

subsection \<open>Snapshots\<close>

text \<open>
  C4. On a snapshot the notes list becomes the list of the snapshot's documents, one
  note per document in the snapshot's order, each with the identifier the store gave the
  document and with the document's fields; nothing of the earlier list remains, and
  apart from the list and the loading flag the state is as before. On an error the list
  and all other state but the loading flag are unchanged and the error is logged to the
  console. Either callback ends without an exception and with loading switched off, so
  that the page shows its lists and no longer the spinner.
\<close>

theorem snapshot_replaces_notes:
  "length (notes (st (onSnapshot_next docs s))) = length docs \<and>
   (\<forall>i < length docs.
      note_id (notes (st (onSnapshot_next docs s)) ! i) = doc_id (docs ! i) \<and>
      note_title (notes (st (onSnapshot_next docs s)) ! i) = d_title (doc_data (docs ! i)) \<and>
      note_text (notes (st (onSnapshot_next docs s)) ! i) = d_text (doc_data (docs ! i)) \<and>
      note_edit (notes (st (onSnapshot_next docs s)) ! i) = d_edit (doc_data (docs ! i)) \<and>
      note_tag (notes (st (onSnapshot_next docs s)) ! i) = d_tag (doc_data (docs ! i))) \<and>
   notes (st (onSnapshot_next docs s)) = notes (st (onSnapshot_next docs s')) \<and>
   st (onSnapshot_next docs s) =
     s\<lparr>notes := notes (st (onSnapshot_next docs s)), loading := False\<rparr> \<and>
   effects (onSnapshot_next docs s) = [] \<and> raised (onSnapshot_next docs s) = None \<and>
   st (onSnapshot_error err s) = s\<lparr>loading := False\<rparr> \<and>
   notes (st (onSnapshot_error err s)) = notes s \<and>
   effects (onSnapshot_error err s) = [ConsoleError (str ''Error fetching notes: '' @ err)] \<and>
   raised (onSnapshot_error err s) = None \<and>
   render sanitize fmt (st (onSnapshot_next docs s)) \<noteq> Spinner \<and>
   render sanitize fmt (st (onSnapshot_error err s)) \<noteq> Spinner"
  by (simp add: onSnapshot_next_def onSnapshot_error_def note_of_doc_def render_def)

theorem snapshot_replaces_notes_witness:
  "notes (st (onSnapshot_next [plain_doc] (example_state\<lparr>notes := [blank_titled], loading := True\<rparr>))) =
     [groceries] \<and>
   note_id groceries = doc_id plain_doc \<and>
   loading (st (onSnapshot_next [plain_doc] (example_state\<lparr>notes := [blank_titled], loading := True\<rparr>))) =
     False \<and>
   notes (st (onSnapshot_error (str ''offline'') (example_state\<lparr>loading := True\<rparr>))) = [groceries] \<and>
   loading (st (onSnapshot_error (str ''offline'') (example_state\<lparr>loading := True\<rparr>))) = False"
proof -
  let ?s = "example_state\<lparr>notes := [blank_titled], loading := True\<rparr>"
  let ?e = "example_state\<lparr>loading := True\<rparr>"
  have fields: "note_id groceries = doc_id plain_doc"
    "note_title groceries = d_title (doc_data plain_doc)"
    "note_text groceries = d_text (doc_data plain_doc)"
    "note_edit groceries = d_edit (doc_data plain_doc)"
    "note_tag groceries = d_tag (doc_data plain_doc)"
    by (simp_all add: groceries_def plain_doc_def)
  have t: "length (notes (st (onSnapshot_next [plain_doc] ?s))) = 1 \<and>
      note_id (notes (st (onSnapshot_next [plain_doc] ?s)) ! 0) = doc_id plain_doc \<and>
      note_title (notes (st (onSnapshot_next [plain_doc] ?s)) ! 0) = d_title (doc_data plain_doc) \<and>
      note_text (notes (st (onSnapshot_next [plain_doc] ?s)) ! 0) = d_text (doc_data plain_doc) \<and>
      note_edit (notes (st (onSnapshot_next [plain_doc] ?s)) ! 0) = d_edit (doc_data plain_doc) \<and>
      note_tag (notes (st (onSnapshot_next [plain_doc] ?s)) ! 0) = d_tag (doc_data plain_doc) \<and>
      st (onSnapshot_next [plain_doc] ?s) =
        ?s\<lparr>notes := notes (st (onSnapshot_next [plain_doc] ?s)), loading := False\<rparr>"
    using snapshot_replaces_notes [where docs = "[plain_doc]" and s = ?s] by simp
  then obtain n where ns: "notes (st (onSnapshot_next [plain_doc] ?s)) = [n]"
    by (cases "notes (st (onSnapshot_next [plain_doc] ?s))") auto
  with t fields have "n = groceries"
    by (simp add: noteObject.equality)
  with ns have a: "notes (st (onSnapshot_next [plain_doc] ?s)) = [groceries]" by simp
  have b: "loading (st (onSnapshot_next [plain_doc] ?s)) = False"
    using t by (metis state.select_convs(11) state.surjective state.update_convs(11))
  have c: "st (onSnapshot_error (str ''offline'') ?e) = ?e\<lparr>loading := False\<rparr>"
    using snapshot_replaces_notes [where err = "str ''offline''" and s = ?e] by simp
  have d: "notes example_state = [groceries]"
    by (simp add: example_state_def)
  show ?thesis
    using a b fields(1) by (simp add: c d)
qed

subsection \<open>Rendering\<close>

lemma map_body_list_items:
  "map (\<lambda>x. item_body (render_list_item sanitize fmt x)) (zip [0..<length ns] ns) =
   map (\<lambda>n. DangerousInnerHTML (sanitize (note_text n))) ns"
proof -
  have "(\<lambda>x. item_body (render_list_item sanitize fmt x)) =
        (\<lambda>p. DangerousInnerHTML (sanitize (note_text (snd p))))"
    by (auto simp: render_list_item_def fun_eq_iff)
  then show ?thesis
    using map_zip_snd [of "[0..<length ns]" ns "\<lambda>n. DangerousInnerHTML (sanitize (note_text n))"]
    by simp
qed

text \<open>
  C6. Whatever the sanitizer and the date format are, the page shows either the spinner,
  which shows no note, or the two lists. In the filtered list and in the full list the
  body of every item is the sanitizer's output on the note's text, set as inner HTML;
  the full list is replaced by a message only when there is no note.
\<close>

theorem render_sanitizes_body:
  "(case render sanitize fmt s of
      Spinner \<Rightarrow> loading s
    | Page filtered full \<Rightarrow>
        map item_body filtered =
          map (\<lambda>n. DangerousInnerHTML (sanitize (note_text n))) (filteredNotes s) \<and>
        (case full of
           NoNotesYet \<Rightarrow> notes s = []
         | NotesUl items \<Rightarrow>
             map item_body items =
               map (\<lambda>n. DangerousInnerHTML (sanitize (note_text n))) (notes s)))"
  by (simp add: render_def map_body_list_items render_filtered_item_def comp_def)

lemma render_example:
  "render toy_sanitize toy_date (st (handleSearch toLowerCase groc_query_state)) =
     Page
       [\<lparr>item_key = KeyId (str ''1''), item_onClick = 0,
         item_border = str ''border-yellow-500'',
         item_title = TextChild (str ''Groceries''),
         item_body = DangerousInnerHTML (str ''pmilk/p''),
         item_date = str ''Jan 1, 1970, 12:00 AM'', item_font = str ''text-yellow-500'',
         item_tag = TextChild (str ''Personal'')\<rparr>]
       (NotesUl
          [\<lparr>item_key = KeyIndex 0, item_onClick = 0,
            item_border = str ''border-yellow-500'',
            item_title = TextChild (str ''Groceries''),
            item_body = DangerousInnerHTML (str ''pmilk/p''),
            item_date = str ''Jan 1, 1970, 12:00 AM'', item_font = str ''text-yellow-500'',
            item_tag = TextChild (str ''Personal'')\<rparr>])"
proof -
  have n: "notes (st (handleSearch toLowerCase groc_query_state)) = [groceries]"
    and l: "\<not> loading (st (handleSearch toLowerCase groc_query_state))"
    by (simp_all add: handleSearch_def groc_query_state_def example_state_def)
  show ?thesis
    by (simp add: render_def groc_filtered n l render_filtered_item_def render_list_item_def
        groceries_def toy_sanitize_def toy_date_def getBorderColor_def getFontColor_def
        findIndex_def str_def)
qed

theorem render_sanitizes_body_witness:
  "filteredNotes (st (handleSearch toLowerCase groc_query_state)) = [groceries] \<and>
   notes (st (handleSearch toLowerCase groc_query_state)) = [groceries] \<and>
   toy_sanitize (note_text groceries) = str ''pmilk/p'' \<and>
   (case render toy_sanitize toy_date (st (handleSearch toLowerCase groc_query_state)) of
      Spinner \<Rightarrow> False
    | Page filtered full \<Rightarrow>
        map item_body filtered = [DangerousInnerHTML (str ''pmilk/p'')] \<and>
        (case full of
           NoNotesYet \<Rightarrow> False
         | NotesUl items \<Rightarrow> map item_body items = [DangerousInnerHTML (str ''pmilk/p'')]))"
proof -
  have n: "notes (st (handleSearch toLowerCase groc_query_state)) = [groceries]"
    by (simp add: handleSearch_def groc_query_state_def example_state_def)
  have t: "toy_sanitize (note_text groceries) = str ''pmilk/p''"
    by (simp add: toy_sanitize_def groceries_def str_def)
  show ?thesis
    using render_sanitizes_body [where sanitize = toy_sanitize and fmt = toy_date
        and s = "st (handleSearch toLowerCase groc_query_state)"]
    by (simp add: render_example groc_filtered n t)
qed

subsection \<open>Deleting\<close>

text \<open>
  Opening the modal on a note of the list puts the page into edit mode on its index and
  leaves the list and the user as they were.
\<close>

lemma openModal_edit_mode:
  "i < length (notes s) \<Longrightarrow>
   editIndex (st (openModal now (Some (int i)) s)) = Some (int i) \<and>
   notes (st (openModal now (Some (int i)) s)) = notes s \<and>
   user (st (openModal now (Some (int i)) s)) = user s \<and>
   isModalOpen (st (openModal now (Some (int i)) s)) \<and>
   raised (openModal now (Some (int i)) s) = None"
  by (simp add: openModal_def js_index_nat)

text \<open>
  C7, as the code has it. \<open>closeModal\<close> comes after the awaited delete. When the store
  rejects the request, the handler ends there: the request was issued, and the modal
  stays open as it was.
\<close>

theorem delete_rejected_counterexample:
  "editIndex editing_state = Some 0 \<and> user editing_state = Some example_user \<and>
   isModalOpen editing_state \<and> isAnimating editing_state \<and>
   effects (deleteNote Rejected editing_state) =
     [Request (DeleteDoc [str ''users'', str ''u1'', str ''notes'', str ''1''])] \<and>
   st (deleteNote Rejected editing_state) = editing_state \<and>
   raised (deleteNote Rejected editing_state) = Some WriteRejected"
  by (simp add: editing_state_def openModal_def js_index_def example_state_def
      initial_state_def groceries_def example_user_def deleteNote_def await_then_close_def)

text \<open>
  C7 (amended). In a state in edit mode on index \<open>i\<close> of the notes list with a user
  resolved, \<open>deleteNote\<close> issues exactly one request, the delete of the document with
  note \<open>i\<close>'s identifier under the user's notes. When that request succeeds it then
  closes the modal: the closing animation starts and the modal is taken away 700 ms
  later. When the request is rejected the state stays as it was.
\<close>

theorem deleteNote_targets_edited_note:
  assumes "editIndex s = Some (int i)" and "i < length (notes s)" and "user s = Some u"
  shows "requests_of (effects (deleteNote w s)) =
           [DeleteDoc [str ''users'', uid u, str ''notes'', note_id (notes s ! i)]] \<and>
         (w = Resolved \<longrightarrow>
            deleteNote w s =
              \<lparr>st = s\<lparr>isAnimating := False\<rparr>,
               effects =
                 [Request (DeleteDoc [str ''users'', uid u, str ''notes'', note_id (notes s ! i)]),
                  SetTimeout (SetIsModalOpen False) 700],
               raised = None\<rparr>) \<and>
         (w = Rejected \<longrightarrow>
            deleteNote w s =
              \<lparr>st = s,
               effects =
                 [Request (DeleteDoc [str ''users'', uid u, str ''notes'', note_id (notes s ! i)])],
               raised = Some WriteRejected\<rparr>)"
  using assms
  by (cases w) (simp_all add: deleteNote_def js_index_nat await_then_close_def closeModal_def)

theorem deleteNote_targets_edited_note_witness:
  "editIndex editing_state = Some (int 0) \<and> 0 < length (notes editing_state) \<and>
   user editing_state = Some example_user \<and>
   deleteNote Resolved editing_state =
     \<lparr>st = editing_state\<lparr>isAnimating := False\<rparr>,
      effects = [Request (DeleteDoc [str ''users'', str ''u1'', str ''notes'', str ''1'']),
                 SetTimeout (SetIsModalOpen False) 700],
      raised = None\<rparr> \<and>
   isModalOpen (run_timer (SetIsModalOpen False) (st (deleteNote Resolved editing_state))) = False"
proof -
  have h1: "editIndex editing_state = Some (int 0)"
    and h2: "0 < length (notes editing_state)"
    and h3: "user editing_state = Some example_user"
    by (simp_all add: editing_state_def openModal_def js_index_def example_state_def
        initial_state_def)
  have n: "note_id (notes editing_state ! 0) = str ''1''"
    by (simp add: editing_state_def openModal_def js_index_def example_state_def
        initial_state_def groceries_def)
  show ?thesis
    using deleteNote_targets_edited_note [OF h1 h2 h3, of Resolved] h1 h2 h3
    by (simp add: n example_user_def)
qed

text \<open>
  C10. In create mode (\<open>editIndex\<close> is null), or without a user, \<open>deleteNote\<close> does
  nothing: no request and no other effect, no exception, and the state, with the notes
  list and the modal, is as before.
\<close>

theorem deleteNote_noop:
  "editIndex s = None \<or> user s = None \<Longrightarrow>
   deleteNote w s = \<lparr>st = s, effects = [], raised = None\<rparr>"
  by (auto simp: deleteNote_def split: option.splits)

theorem deleteNote_noop_witness:
  "(editIndex valid_create_draft = None \<or> user valid_create_draft = None) \<and>
   deleteNote Resolved valid_create_draft =
     \<lparr>st = valid_create_draft, effects = [], raised = None\<rparr> \<and>
   isModalOpen (st (deleteNote Resolved valid_create_draft))"
proof -
  have h: "editIndex valid_create_draft = None \<or> user valid_create_draft = None"
    by (simp add: valid_create_draft_def example_state_def initial_state_def)
  have m: "isModalOpen valid_create_draft"
    by (simp add: valid_create_draft_def)
  show ?thesis using deleteNote_noop [OF h, of Resolved] h m by simp
qed

subsection \<open>Without a user\<close>

text \<open>
  C8. While no user is resolved, the effect hook subscribes to nothing, and neither
  \<open>addOrEditNote\<close>, whatever the draft, nor \<open>deleteNote\<close> issues a request or any other
  effect.
\<close>

theorem no_user_no_activity:
  "user s = None \<Longrightarrow>
   useEffect_subscribe (user s) = [] \<and>
   effects (addOrEditNote now w s) = [] \<and>
   effects (deleteNote w s) = []"
  by (simp add: useEffect_subscribe_def addOrEditNote_def deleteNote_def split: option.splits)

theorem no_user_no_activity_witness:
  "user signed_out_draft = None \<and>
   useEffect_subscribe (user signed_out_draft) = [] \<and>
   effects (addOrEditNote 100 Resolved signed_out_draft) = [] \<and>
   effects (deleteNote Resolved signed_out_draft) = []"
proof -
  have h: "user signed_out_draft = None"
    by (simp add: signed_out_draft_def initial_state_def)
  show ?thesis using no_user_no_activity [OF h, of 100 Resolved] h by simp
qed

end
